theory Spec2Isabelle
  imports Complex_Main "HOL-Library.Signed_Division"
begin

section \<open>Go values shared by the packages\<close>

text \<open>
  A \<^verbatim>\<open>time.Time\<close> is modelled by its distance from a fixed epoch in nanoseconds, a
  \<^verbatim>\<open>time.Duration\<close> by its \<^verbatim>\<open>int64\<close> count of nanoseconds. A Go \<^verbatim>\<open>error\<close> is a value of
  \<open>go_error\<close>; a nil error is \<open>None\<close>. A nil-pointer dereference and a failed type
  assertion are run-time panics; a panic unwinds through every caller in this program
  (nobody recovers), so it is carried as the error value \<open>NilDereference\<close> or
  \<open>TypeAssertion\<close>, which skips the rest of each caller like an early return.
\<close>

type_synonym instant = int
type_synonym duration = int

datatype go_error =
    OpenError
  | InitError
  | SchemaError
  | SaveError
  | CaptureError
  | RequestError
  | TransportError
  | Unauthorized
  | StatusError
  | DecodeError
  | RemoteError
  | NilDereference
  | TypeAssertion

definition Second :: duration where
  "Second = 1000000000"

definition minDuration :: duration where
  "minDuration = - (2 ^ 63)"

definition maxDuration :: duration where
  "maxDuration = 2 ^ 63 - 1"

text \<open>\<^verbatim>\<open>func (t Time) Sub(u Time) Duration\<close>: the difference, saturated at the ends of \<^verbatim>\<open>int64\<close>.\<close>

definition Sub :: "instant \<Rightarrow> instant \<Rightarrow> duration" where
  "Sub t u =
     (let d = t - u in
      if d < minDuration then minDuration
      else if maxDuration < d then maxDuration
      else d)"

text \<open>
  \<^verbatim>\<open>func (d Duration) Seconds() float64\<close>:
  \<^verbatim>\<open>sec := d / Second; nsec := d % Second; return float64(sec) + float64(nsec)/1e9\<close>.
  Go's integer division truncates towards zero. The \<^verbatim>\<open>float64\<close> arithmetic is taken
  exact (a real number), without the rounding of the 53-bit significand.
\<close>

definition Seconds :: "duration \<Rightarrow> real" where
  "Seconds d = real_of_int (d sdiv Second) + real_of_int (d smod Second) / 1000000000"

text \<open>
  The conversion of a \<^verbatim>\<open>float64\<close> to an integer type discards the fraction (truncation
  towards zero). Outside the range of \<^verbatim>\<open>int64\<close> the Go specification leaves the result to
  the implementation; the properties below are stated where the value is inside the range.
\<close>

definition float64_to_int :: "real \<Rightarrow> int" where
  "float64_to_int x = (if 0 \<le> x then \<lfloor>x\<rfloor> else \<lceil>x\<rceil>)"

text \<open>
  The wrap-around of \<^verbatim>\<open>int64\<close> arithmetic: the representative of \<open>n\<close> modulo \<open>2 ^ 64\<close>
  in the signed range.
\<close>

definition wrap64 :: "int \<Rightarrow> int" where
  "wrap64 n = (n + 2 ^ 63) mod 2 ^ 64 - 2 ^ 63"

section \<open>Package types: users, projects, tasks, work reports\<close>

record User =
  User_ID :: int
  User_Username :: string
  User_Email :: string

record Project =
  Project_ID :: int
  Project_Name :: string
  Project_Description :: "string option"
  Project_CreatedBy :: "User option"
  Project_CreatedAt :: "instant option"
  Project_UpdatedAt :: "instant option"
  Project_Members :: "User list"
  Project_FavoriteBy :: "User list"
  Project_Status :: "string option"

record Task =
  Task_ID :: int
  Task_Name :: string
  Task_Project :: Project
  Task_Description :: "string option"
  Task_Status :: "string option"

record WorkReport =
  WorkReport_ID :: int
  WorkReport_User :: User
  WorkReport_Project :: Project
  WorkReport_Task :: Task
  WorkReport_StartTime :: "instant option"
  WorkReport_EndTime :: "instant option"
  WorkReport_Description :: "string option"
  WorkReport_CreatedAt :: "instant option"
  WorkReport_UpdatedAt :: "instant option"

section \<open>Package core: the task manager\<close>

text \<open>
  A value of \<^verbatim>\<open>interface{}\<close> stored in a history entry: nil, a \<^verbatim>\<open>time.Time\<close>, the
  string \<^verbatim>\<open>t.Format(time.RFC3339)\<close> of an instant, another string, or a pointer to a string.
  A history entry is a \<^verbatim>\<open>map[string]interface{}\<close>.
\<close>

datatype dyn = DNil | DTime instant | DFormatted instant | DString string | DStringPtr string

type_synonym history_entry = "string \<rightharpoonup> dyn"

text \<open>
  The task service of the manager is the remote side; what it answers is an argument of
  the operation that calls it.
\<close>

record TaskManager =
  tasks :: "Task list"
  activeTask :: "Task option"
  taskHistory :: "int \<rightharpoonup> history_entry list"
  workReport :: "WorkReport option"

definition NewTaskManager :: TaskManager where
  "NewTaskManager =
     \<lparr>tasks = [], activeTask = None, taskHistory = Map.empty, workReport = None\<rparr>"

text \<open>
  The loop of \<^verbatim>\<open>AddTask\<close>: \<^verbatim>\<open>for _, t := range tm.tasks { if t.ID == task.ID { return false, nil } }\<close>.
  The result \<open>True\<close> says that the loop returned from the function.
\<close>

fun AddTask_found :: "Task list \<Rightarrow> Task \<Rightarrow> bool" where
  "AddTask_found [] task = False"
| "AddTask_found (t # ts) task =
     (if Task_ID t = Task_ID task then True else AddTask_found ts task)"

definition AddTask :: "TaskManager \<Rightarrow> Task \<Rightarrow> TaskManager \<times> (bool \<times> go_error option)" where
  "AddTask tm task =
     (if AddTask_found (tasks tm) task then (tm, (False, None))
      else (tm\<lparr>tasks := tasks tm @ [task],
                taskHistory := (taskHistory tm)(Task_ID task \<mapsto> [])\<rparr>,
            (True, None)))"

text \<open>
  \<^verbatim>\<open>StopActiveTask\<close> closes the last history entry of the active task (the entry is a
  map, mutated in place, so the history held by the manager changes) and clears the
  active task. A key that is absent reads as nil.
\<close>

definition StopActiveTask :: "instant \<Rightarrow> TaskManager \<Rightarrow> TaskManager" where
  "StopActiveTask now tm =
     (case activeTask tm of
        None \<Rightarrow> tm
      | Some a \<Rightarrow>
          (let history = (case taskHistory tm (Task_ID a) of None \<Rightarrow> [] | Some h \<Rightarrow> h);
               tm1 =
                 (if 0 < length history then
                    (let lastSession = last history in
                     if lastSession ''end_time'' = None \<or> lastSession ''end_time'' = Some DNil
                     then tm\<lparr>taskHistory := (taskHistory tm)(Task_ID a \<mapsto>
                            butlast history @ [lastSession(''end_time'' \<mapsto> DTime now)])\<rparr>
                     else tm)
                  else tm)
           in tm1\<lparr>activeTask := None\<rparr>))"

text \<open>
  \<^verbatim>\<open>UserStartTask\<close>. The remote call \<^verbatim>\<open>taskService.StartUserTask\<close> is answered by the
  argument \<open>remote\<close>: the work report (or nil) and the error (or nil) it returns. The start
  time is the clock reading \<open>now\<close>; its RFC 3339 rendering is kept as \<open>DFormatted now\<close>.
\<close>

definition UserStartTask ::
  "instant \<Rightarrow> (WorkReport option \<times> go_error option) \<Rightarrow> int \<Rightarrow> Task \<Rightarrow> string \<Rightarrow> TaskManager
     \<Rightarrow> TaskManager \<times> (bool \<times> go_error option)" where
  "UserStartTask now remote projectID task description tm =
     (let tm1 = (if activeTask tm \<noteq> None then StopActiveTask now tm else tm) in
      case remote of
        (_, Some err) \<Rightarrow> (tm1, (False, Some err))
      | (wr, None) \<Rightarrow>
          (let tm2 = tm1\<lparr>workReport := wr\<rparr> in
           if workReport tm2 \<noteq> None then
             (tm2\<lparr>activeTask := Some task,
                   taskHistory := (taskHistory tm2)(Task_ID task \<mapsto>
                     (case taskHistory tm2 (Task_ID task) of None \<Rightarrow> [] | Some h \<Rightarrow> h) @
                     [[''start_time'' \<mapsto> DFormatted now, ''end_time'' \<mapsto> DNil,
                       ''description'' \<mapsto> DString description]])\<rparr>,
              (True, None))
           else (tm2, (False, None))))"

section \<open>Package core: the input monitor\<close>

text \<open>
  The events of the input hook. \<open>ev_Keychar\<close> is the rune of the key; \<open>ev_Button\<close> says
  which entry of the hook's button table the button code of the event equals, in the order
  in which the \<^verbatim>\<open>switch\<close> of the monitor tests them; \<open>ev_Amount\<close> is a \<^verbatim>\<open>uint16\<close> and
  \<open>ev_Rotation\<close> an \<^verbatim>\<open>int32\<close>.
\<close>

datatype hook_kind =
    HookEnabled | HookDisabled | KeyDown | KeyHold | KeyUp
  | MouseUp | MouseHold | MouseDown | MouseMove | MouseDrag | MouseWheel | FakeEvent

datatype hook_button = ButtonLeft | ButtonRight | ButtonMiddle | ButtonOther

record hook_event =
  ev_Kind :: hook_kind
  ev_Keychar :: int
  ev_Button :: hook_button
  ev_Amount :: nat
  ev_Rotation :: int

text \<open>
  \<open>Key\<close> holds \<^verbatim>\<open>fmt.Sprintf("%c", r)\<close> for the rune \<open>r\<close>, kept as \<open>Some r\<close>, or the empty
  string, kept as \<open>None\<close>.
\<close>

record InputEvent =
  EventType :: string
  Key :: "int option"
  Position :: "int \<times> int"
  Button :: string
  Pressed :: bool
  Scroll :: "int \<times> int"
  Timestamp :: instant

record InputMonitor =
  Keystrokes :: "InputEvent list"
  MouseMovements :: "InputEvent list"
  IsMonitoring :: bool

definition NewInputMonitor :: InputMonitor where
  "NewInputMonitor = \<lparr>Keystrokes = [], MouseMovements = [], IsMonitoring = False\<rparr>"

text \<open>
  \<^verbatim>\<open>StartMonitoring\<close> sets the flag and starts the goroutine that reads the hook's channel.
  What the goroutine does with one event it has received is \<open>StartMonitoring_event\<close>: it
  takes the lock, checks the flag again and files the event. \<open>now\<close> is the clock reading
  that stamps the event.
\<close>

definition StartMonitoring :: "InputMonitor \<Rightarrow> InputMonitor" where
  "StartMonitoring im = (if IsMonitoring im then im else im\<lparr>IsMonitoring := True\<rparr>)"

definition StartMonitoring_event :: "instant \<Rightarrow> hook_event \<Rightarrow> InputMonitor \<Rightarrow> InputMonitor" where
  "StartMonitoring_event now ev im =
     (if \<not> IsMonitoring im then im
      else if ev_Kind ev = KeyDown \<or> ev_Kind ev = KeyHold then
        im\<lparr>Keystrokes := Keystrokes im @
          [\<lparr>EventType = ''press'', Key = Some (ev_Keychar ev), Position = (0, 0), Button = [],
            Pressed = False, Scroll = (0, 0), Timestamp = now\<rparr>]\<rparr>
      else if ev_Kind ev = MouseDown then
        (let button =
           (case ev_Button ev of
              ButtonLeft \<Rightarrow> ''left''
            | ButtonRight \<Rightarrow> ''right''
            | ButtonMiddle \<Rightarrow> ''middle''
            | ButtonOther \<Rightarrow> ''other'')
         in im\<lparr>MouseMovements := MouseMovements im @
          [\<lparr>EventType = ''click'', Key = None, Position = (0, 0), Button = button,
            Pressed = True, Scroll = (0, 0), Timestamp = now\<rparr>]\<rparr>)
      else if ev_Kind ev = MouseWheel then
        (let scrollY = (if 0 < ev_Rotation ev then - int (ev_Amount ev) else int (ev_Amount ev))
         in im\<lparr>MouseMovements := MouseMovements im @
          [\<lparr>EventType = ''scroll'', Key = None, Position = (0, 0), Button = [],
            Pressed = False, Scroll = (0, scrollY), Timestamp = now\<rparr>]\<rparr>)
      else im)"

definition ClearData :: "InputMonitor \<Rightarrow> InputMonitor" where
  "ClearData im = im\<lparr>Keystrokes := [], MouseMovements := []\<rparr>"

definition StopMonitoring :: "InputMonitor \<Rightarrow> InputMonitor \<times> (string \<rightharpoonup> int)" where
  "StopMonitoring im =
     (if \<not> IsMonitoring im then
        (im, [''keyboard_event_count'' \<mapsto> 0, ''mouse_event_count'' \<mapsto> 0])
      else
        (let im1 = im\<lparr>IsMonitoring := False\<rparr>;
             eventCounts = [''keyboard_event_count'' \<mapsto> int (length (Keystrokes im1)),
                            ''mouse_event_count'' \<mapsto> int (length (MouseMovements im1))]
         in (ClearData im1, eventCounts)))"

definition GetKeystrokes :: "InputMonitor \<Rightarrow> InputEvent list" where
  "GetKeystrokes im = Keystrokes im"

definition GetMouseMovements :: "InputMonitor \<Rightarrow> InputEvent list" where
  "GetMouseMovements im = MouseMovements im"

section \<open>Package core: the screenshot manager\<close>

text \<open>
  \<open>stopChan\<close> is \<open>None\<close> for the nil channel and \<open>Some c\<close> for a channel, with \<open>c\<close> saying
  that it has been closed. \<open>wg\<close> is the counter of the wait group: the number of capture
  goroutines that have been started and have not returned. The mutex is not part of the
  state: each function below is one critical section. The reference to the task manager
  serves the upload of a capture only and is left out.
\<close>

record ScreenshotManager =
  interval :: duration
  isActive :: bool
  screenshotDir :: string
  stopChan :: "bool option"
  wg :: nat

text \<open>
  \<open>home\<close> is the user's home directory, a clean path, so that \<^verbatim>\<open>filepath.Join\<close> puts
  separators between the parts.
\<close>

definition NewScreenshotManager :: "string \<Rightarrow> int \<Rightarrow> ScreenshotManager" where
  "NewScreenshotManager home intervalSeconds =
     \<lparr>interval = wrap64 (intervalSeconds * Second),
      isActive = False,
      screenshotDir = home @ ''/.time-tracker/screenshots'',
      stopChan = None,
      wg = 0\<rparr>"

definition StartCapture :: "ScreenshotManager \<Rightarrow> ScreenshotManager" where
  "StartCapture sm =
     (if isActive sm then sm
      else sm\<lparr>isActive := True, stopChan := Some False, wg := wg sm + 1\<rparr>)"

text \<open>
  \<^verbatim>\<open>StopCapture\<close> closes the channel unless it is closed already, clears the flag, and
  waits on the wait group. \<^verbatim>\<open>Wait\<close> returns when the counter is zero: the goroutine has
  left its loop on the closed channel and its deferred \<^verbatim>\<open>Done\<close> has run.
\<close>

definition StopCapture :: "ScreenshotManager \<Rightarrow> ScreenshotManager" where
  "StopCapture sm =
     (if \<not> isActive sm \<or> stopChan sm = None then sm
      else sm\<lparr>stopChan := Some True, isActive := False, wg := 0\<rparr>)"

text \<open>
  What the operating system and the upload do with one capture: the screen capture fails,
  the file cannot be created, the image cannot be encoded, or the file is written under the
  name made from the time stamp \<open>ts\<close> (\<^verbatim>\<open>time.Now().Format("20060102_150405")\<close>). A
  failed upload is only printed.
\<close>

datatype capture_io = CaptureFails | CreateFails | EncodeFails | Written string

definition captureScreenshot :: "ScreenshotManager \<Rightarrow> capture_io \<Rightarrow> string \<times> go_error option" where
  "captureScreenshot sm io =
     (case io of
        CaptureFails \<Rightarrow> ([], Some CaptureError)
      | CreateFails \<Rightarrow> ([], Some CaptureError)
      | EncodeFails \<Rightarrow> ([], Some CaptureError)
      | Written ts \<Rightarrow> (screenshotDir sm @ ''/'' @ ''screenshot_'' @ ts @ ''.png'', None))"

text \<open>
  \<^verbatim>\<open>randomInterval\<close>; \<open>r\<close> is the value of \<^verbatim>\<open>rand.Float64()\<close>, a number in \<open>[0, 1)\<close>. The
  arithmetic of \<^verbatim>\<open>float64\<close> is taken exact.
\<close>

definition randomInterval :: "ScreenshotManager \<Rightarrow> real \<Rightarrow> duration" where
  "randomInterval sm r =
     (let min = real_of_int (interval sm) * (8 / 10);
          max = real_of_int (interval sm) * (12 / 10)
      in float64_to_int (min + r * (max - min)))"

section \<open>Package core: the database\<close>

text \<open>
  A row of the table \<^verbatim>\<open>activities\<close>. The two time columns hold the empty string, kept as
  \<open>None\<close>, or \<^verbatim>\<open>t.Format(time.RFC3339)\<close> for an instant \<open>t\<close>, kept as \<open>Some t\<close>.
\<close>

record activity_row =
  task :: string
  start_time :: "instant option"
  end_time :: "instant option"
  duration :: int
  screenshot_path :: string
  keyboard_event_count :: int
  mouse_event_count :: int

text \<open>
  \<open>conn\<close> says that the handle is not nil; \<open>activities\<close> is the content of the table in the
  file behind the handle, in the order of insertion.
\<close>

record Database =
  dbFile :: string
  conn :: bool
  activities :: "activity_row list"

definition NewDatabase :: "string \<Rightarrow> activity_row list \<Rightarrow> string \<Rightarrow> Database" where
  "NewDatabase home stored file =
     (let file1 = (if file = [] then ''time_tracker.db'' else file) in
      \<lparr>dbFile = home @ ''/.time-tracker'' @ ''/'' @ file1, conn = False, activities = stored\<rparr>)"

text \<open>What the storage does when the connection is opened and the schema is checked.\<close>

datatype connect_io = OpenFails | InitFails | SchemaFails | ConnectOK

definition Connect :: "Database \<Rightarrow> connect_io \<Rightarrow> Database \<times> go_error option" where
  "Connect db io =
     (case io of
        OpenFails \<Rightarrow> (db, Some OpenError)
      | InitFails \<Rightarrow> (db\<lparr>conn := True\<rparr>, Some InitError)
      | SchemaFails \<Rightarrow> (db\<lparr>conn := True\<rparr>, Some SchemaError)
      | ConnectOK \<Rightarrow> (db\<lparr>conn := True\<rparr>, None))"

text \<open>
  \<^verbatim>\<open>SaveActivity\<close>; \<open>ok\<close> says whether the storage accepts the insertion. On a nil handle
  \<^verbatim>\<open>db.conn.Exec\<close> dereferences nil.
\<close>

definition SaveActivity ::
  "Database \<Rightarrow> bool \<Rightarrow> string \<Rightarrow> instant option \<Rightarrow> instant option \<Rightarrow> int \<Rightarrow> string \<Rightarrow> int \<Rightarrow> int
     \<Rightarrow> Database \<times> go_error option" where
  "SaveActivity db ok task' startTime endTime duration' screenshotPath keyboardEventCount
       mouseEventCount =
     (if \<not> conn db then (db, Some NilDereference)
      else if \<not> ok then (db, Some SaveError)
      else (db\<lparr>activities := activities db @
              [\<lparr>task = task', start_time = startTime, end_time = endTime, duration = duration',
                screenshot_path = screenshotPath, keyboard_event_count = keyboardEventCount,
                mouse_event_count = mouseEventCount\<rparr>]\<rparr>, None))"

definition GetActivities :: "Database \<Rightarrow> activity_row list" where
  "GetActivities db = activities db"

section \<open>Package core: the activity tracker\<close>

record Activity =
  TaskName :: string
  Activity_Timestamp :: instant

text \<open>
  The tracker holds its three collaborators by pointer and is their only holder, so they
  are fields of its record. The reference to the task manager, which the tracker never
  reads, is left out.
\<close>

record ActivityTracker =
  ActiveTasks :: "Activity list"
  IsTracking :: bool
  CurrentTask :: "string option"
  StartTime :: "instant option"
  EndTime :: "instant option"
  Database :: Database
  ScreenshotManager :: ScreenshotManager
  InputMonitor :: InputMonitor
  tracker_screenshotDir :: string

definition NewActivityTracker :: "string \<Rightarrow> activity_row list \<Rightarrow> string \<Rightarrow> ActivityTracker" where
  "NewActivityTracker home stored dir =
     \<lparr>ActiveTasks = [],
      IsTracking = False,
      CurrentTask = None,
      StartTime = None,
      EndTime = None,
      Database = NewDatabase home stored ''time_tracker.db'',
      ScreenshotManager = NewScreenshotManager home 10,
      InputMonitor = NewInputMonitor,
      tracker_screenshotDir = dir\<rparr>"

definition LogActivity :: "instant \<Rightarrow> string \<Rightarrow> ActivityTracker \<Rightarrow> ActivityTracker" where
  "LogActivity now taskName tr =
     tr\<lparr>ActiveTasks := ActiveTasks tr @ [\<lparr>TaskName = taskName, Activity_Timestamp = now\<rparr>]\<rparr>"

definition trackActivities :: "instant \<Rightarrow> ActivityTracker \<Rightarrow> ActivityTracker \<times> go_error option" where
  "trackActivities now tr =
     (case CurrentTask tr of
        Some name \<Rightarrow> (LogActivity now name tr, None)
      | None \<Rightarrow> (tr, None))"

text \<open>
  \<^verbatim>\<open>StartTracking\<close>; \<open>io\<close> is what the storage does on \<^verbatim>\<open>Connect\<close>, \<open>now\<close> the clock
  reading stored as the start time and \<open>now'\<close> the later reading that stamps the tick.
\<close>

definition StartTracking ::
  "connect_io \<Rightarrow> instant \<Rightarrow> instant \<Rightarrow> string \<Rightarrow> ActivityTracker \<Rightarrow> ActivityTracker \<times> go_error option" where
  "StartTracking io now now' taskName tr =
     (case Connect (Database tr) io of
        (db, Some err) \<Rightarrow> (tr\<lparr>Database := db\<rparr>, Some err)
      | (db, None) \<Rightarrow>
          trackActivities now'
            (tr\<lparr>Database := db,
                IsTracking := True,
                CurrentTask := Some taskName,
                StartTime := Some now,
                ScreenshotManager := StartCapture (ScreenshotManager tr),
                InputMonitor := StartMonitoring (InputMonitor tr)\<rparr>))"

definition calculateSessionDuration :: "ActivityTracker \<Rightarrow> real" where
  "calculateSessionDuration tr =
     (case (StartTime tr, EndTime tr) of
        (Some s, Some e) \<Rightarrow> Seconds (Sub e s)
      | _ \<Rightarrow> 0)"

text \<open>
  The loop of \<^verbatim>\<open>saveCurrentSession\<close> over the logged ticks: one insertion per tick, left at
  the first insertion that fails. \<open>refused\<close> is the iteration whose insertion the storage
  refuses, if there is one; \<open>i\<close> counts the iterations.
\<close>

fun saveCurrentSession_loop ::
  "nat option \<Rightarrow> nat \<Rightarrow> ActivityTracker \<Rightarrow> real \<Rightarrow> string \<Rightarrow> Database \<Rightarrow> Activity list
     \<Rightarrow> Database \<times> go_error option" where
  "saveCurrentSession_loop refused i tr d screenshotPath db [] = (db, None)"
| "saveCurrentSession_loop refused i tr d screenshotPath db (activity # rest) =
     (let startTimeStr = StartTime tr;
          endTimeStr = EndTime tr
      in case SaveActivity db (refused \<noteq> Some i) (TaskName activity) startTimeStr endTimeStr
                (float64_to_int d) screenshotPath 0 0 of
           (db1, Some err) \<Rightarrow> (db1, Some err)
         | (db1, None) \<Rightarrow> saveCurrentSession_loop refused (Suc i) tr d screenshotPath db1 rest)"

text \<open>
  \<^verbatim>\<open>saveCurrentSession\<close>; \<open>shot\<close> is what happens to the one capture it takes. The
  counts of keyboard and mouse events that it passes to \<^verbatim>\<open>SaveActivity\<close> are the
  literals \<^verbatim>\<open>0, 0\<close>.
\<close>

definition saveCurrentSession ::
  "capture_io \<Rightarrow> nat option \<Rightarrow> ActivityTracker \<Rightarrow> ActivityTracker \<times> go_error option" where
  "saveCurrentSession shot refused tr =
     (let d = calculateSessionDuration tr;
          captured = captureScreenshot (ScreenshotManager tr) shot;
          screenshotPath = (if snd captured \<noteq> None then [] else fst captured)
      in case saveCurrentSession_loop refused 0 tr d screenshotPath (Database tr) (ActiveTasks tr) of
           (db, Some err) \<Rightarrow> (tr\<lparr>Database := db\<rparr>, Some err)
         | (db, None) \<Rightarrow> (tr\<lparr>Database := db, ActiveTasks := []\<rparr>, None))"

text \<open>
  \<^verbatim>\<open>StopTracking\<close> in the two parts in which it runs: first the bookkeeping and the
  hand-off to the storage, then, when that returned no error, the two calls that stop the
  workers. \<open>now\<close> is the clock reading stored as the end time, \<open>shot\<close> and \<open>refused\<close>
  are passed to \<^verbatim>\<open>saveCurrentSession\<close>; the tick that
  \<^verbatim>\<open>trackActivities\<close> would stamp with a later reading is not logged, since the current
  task has just been cleared.
\<close>

definition StopTracking_persist ::
  "instant \<Rightarrow> capture_io \<Rightarrow> nat option \<Rightarrow> ActivityTracker \<Rightarrow> ActivityTracker \<times> go_error option" where
  "StopTracking_persist now shot refused tr =
     (case trackActivities now (tr\<lparr>IsTracking := False, CurrentTask := None, EndTime := Some now\<rparr>) of
        (tr1, Some err) \<Rightarrow> (tr1, Some err)
      | (tr1, None) \<Rightarrow> saveCurrentSession shot refused tr1)"

definition StopTracking_workers :: "ActivityTracker \<Rightarrow> ActivityTracker \<times> go_error option" where
  "StopTracking_workers tr =
     (let tr1 = tr\<lparr>ScreenshotManager := StopCapture (ScreenshotManager tr)\<rparr>;
          tr2 = tr1\<lparr>InputMonitor := fst (StopMonitoring (InputMonitor tr1))\<rparr>
      in (tr2, None))"

definition StopTracking ::
  "instant \<Rightarrow> capture_io \<Rightarrow> nat option \<Rightarrow> ActivityTracker \<Rightarrow> ActivityTracker \<times> go_error option" where
  "StopTracking now shot refused tr =
     (case StopTracking_persist now shot refused tr of
        (tr1, Some err) \<Rightarrow> (tr1, Some err)
      | (tr1, None) \<Rightarrow> StopTracking_workers tr1)"

definition GetActiveTasks :: "ActivityTracker \<Rightarrow> Activity list" where
  "GetActiveTasks tr = ActiveTasks tr"

text \<open>
  The states of the screenshot manager that its constructor and its two operations produce:
  while it is active there is one capture goroutine, waiting on an open channel; otherwise
  there is none.
\<close>

definition capture_consistent :: "ScreenshotManager \<Rightarrow> bool" where
  "capture_consistent sm =
     (if isActive sm then stopChan sm = Some False \<and> wg sm = 1 else wg sm = 0)"

section \<open>Package services: the API client and the authentication service\<close>

text \<open>
  A decoded JSON value, and a request as \<^verbatim>\<open>CallAPI\<close> builds it: the URL, the method, the
  JSON body (absent when the data is nil) and the \<^verbatim>\<open>Authorization\<close> header (absent when
  the client holds no token).
\<close>

datatype json =
    JNull | JBool bool | JNumber real | JString string
  | JArray "json list" | JObject "(string \<times> json) list"

record http_request =
  req_url :: string
  req_method :: string
  req_body :: "(string \<rightharpoonup> json) option"
  req_authorization :: "string option"

text \<open>
  What happens to a request: it cannot be built, \<^verbatim>\<open>http.Client.Do\<close> fails, or the
  server answers with a status code and a body. The body cannot be read, is not JSON for a
  map, is the JSON \<^verbatim>\<open>null\<close> (which decodes to the nil map without an error), or is
  an object.
\<close>

datatype http_body =
    BodyUnreadable | BodyInvalid | BodyNull | BodyObject "string \<rightharpoonup> json"

datatype http_io = RequestInvalid | TransportFails | Responds nat http_body

record ApiClient =
  BaseURL :: string
  Token :: string

text \<open>
  \<^verbatim>\<open>CallAPI\<close>; \<open>io\<close> is what happens to its request. The result carries, next to the client and
  the two values that the Go function returns, the list of the requests that were handed to
  \<^verbatim>\<open>http.Client.Do\<close>. The home directory of the user is taken to exist; the token file
  is not part of the model.
\<close>

definition CallAPI ::
  "ApiClient \<Rightarrow> http_io \<Rightarrow> string \<Rightarrow> string \<Rightarrow> (string \<rightharpoonup> json) option
     \<Rightarrow> ApiClient \<times> http_request list \<times> ((string \<rightharpoonup> json) option \<times> go_error option)" where
  "CallAPI c io endpoint method data =
     (let req = \<lparr>req_url = BaseURL c @ endpoint, req_method = method, req_body = data,
                 req_authorization =
                   (if Token c \<noteq> [] then Some (''Bearer '' @ Token c) else None)\<rparr>
      in case io of
           RequestInvalid \<Rightarrow> (c, [], (None, Some RequestError))
         | TransportFails \<Rightarrow> (c, [req], (None, Some TransportError))
         | Responds status body \<Rightarrow>
             if status = 401 then (c\<lparr>Token := []\<rparr>, [req], (None, Some Unauthorized))
             else if status < 200 \<or> 300 \<le> status then (c, [req], (None, Some StatusError))
             else (case body of
                     BodyUnreadable \<Rightarrow> (c, [req], (None, Some DecodeError))
                   | BodyInvalid \<Rightarrow> (c, [req], (None, Some DecodeError))
                   | BodyNull \<Rightarrow> (c, [req], (None, None))
                   | BodyObject result \<Rightarrow> (c, [req], (Some result, None))))"

text \<open>Reading a key of a map that may be nil; the type assertions \<^verbatim>\<open>.(string)\<close> and \<^verbatim>\<open>.(float64)\<close>.\<close>

definition index_map :: "(string \<rightharpoonup> json) option \<Rightarrow> string \<Rightarrow> json option" where
  "index_map m k = (case m of None \<Rightarrow> None | Some f \<Rightarrow> f k)"

fun assert_string :: "json option \<Rightarrow> string option" where
  "assert_string (Some (JString s)) = Some s"
| "assert_string _ = None"

fun assert_float64 :: "json option \<Rightarrow> real option" where
  "assert_float64 (Some (JNumber x)) = Some x"
| "assert_float64 _ = None"

definition ApiClient_Login ::
  "ApiClient \<Rightarrow> http_io \<Rightarrow> (string \<rightharpoonup> json)
     \<Rightarrow> ApiClient \<times> http_request list \<times> ((string \<rightharpoonup> json) option \<times> go_error option)" where
  "ApiClient_Login c io payload =
     (case CallAPI c io ''/api/login'' ''POST'' (Some payload) of
        (c1, sent, (_, Some err)) \<Rightarrow> (c1, sent, (None, Some err))
      | (c1, sent, (response, None)) \<Rightarrow>
          (case assert_string (index_map response ''token'') of
             Some token \<Rightarrow> (c1\<lparr>Token := token\<rparr>, sent, (response, None))
           | None \<Rightarrow> (c1, sent, (response, None))))"

record AuthUser =
  AuthUser_ID :: int
  AuthUser_Username :: string
  AuthUser_Email :: string
  AuthUser_Role :: string
  AuthUser_Token :: string

record AuthService =
  apiClient :: ApiClient

text \<open>
  \<^verbatim>\<open>func (s *AuthService) Login(email, password string) (*auth.User, error)\<close>; \<open>io\<close> is
  what happens to the request of \<^verbatim>\<open>CallAPI\<close>, when one is made. A type assertion that
  fails panics.
\<close>

definition Login ::
  "AuthService \<Rightarrow> http_io \<Rightarrow> string \<Rightarrow> string
     \<Rightarrow> AuthService \<times> http_request list \<times> (AuthUser option \<times> go_error option)" where
  "Login s io email password =
     (if email = [] \<or> password = [] then (s, [], (None, None))
      else
        (let payload = [''email'' \<mapsto> JString email, ''password'' \<mapsto> JString password] in
         case ApiClient_Login (apiClient s) io payload of
           (c, sent, (_, Some err)) \<Rightarrow> (s\<lparr>apiClient := c\<rparr>, sent, (None, Some err))
         | (c, sent, (response, None)) \<Rightarrow>
             (case assert_float64 (index_map response ''id'') of
                None \<Rightarrow> (s\<lparr>apiClient := c\<rparr>, sent, (None, Some TypeAssertion))
              | Some ident \<Rightarrow>
             (case assert_string (index_map response ''username'') of
                None \<Rightarrow> (s\<lparr>apiClient := c\<rparr>, sent, (None, Some TypeAssertion))
              | Some username \<Rightarrow>
             (case assert_string (index_map response ''email'') of
                None \<Rightarrow> (s\<lparr>apiClient := c\<rparr>, sent, (None, Some TypeAssertion))
              | Some email1 \<Rightarrow>
             (case assert_string (index_map response ''role'') of
                None \<Rightarrow> (s\<lparr>apiClient := c\<rparr>, sent, (None, Some TypeAssertion))
              | Some role \<Rightarrow>
             (case assert_string (index_map response ''token'') of
                None \<Rightarrow> (s\<lparr>apiClient := c\<rparr>, sent, (None, Some TypeAssertion))
              | Some token \<Rightarrow>
                  (s\<lparr>apiClient := c\<rparr>, sent,
                   (Some \<lparr>AuthUser_ID = float64_to_int ident, AuthUser_Username = username,
                          AuthUser_Email = email1, AuthUser_Role = role,
                          AuthUser_Token = token\<rparr>, None)))))))))"

section \<open>Auxiliary facts\<close>

subsection \<open>Durations and conversions\<close>

lemma Seconds_exact: "Seconds d = real_of_int d / 1000000000"
proof -
  have "d sdiv Second * Second + d smod Second = d" by (rule sdiv_mult_smod_eq)
  then have "real_of_int d = real_of_int (d sdiv Second) * 1000000000 + real_of_int (d smod Second)"
    by (metis Second_def of_int_add of_int_mult of_int_numeral)
  then show ?thesis by (simp add: Seconds_def field_simps)
qed

text \<open>
  On the exact value, the conversion of \<^verbatim>\<open>Seconds()\<close> to an integer is Go's integer
  division of the nanoseconds by a second.
\<close>

lemma float64_to_int_Seconds: "float64_to_int (Seconds d) = d sdiv Second"
proof (cases "0 \<le> d")
  case True
  then have "float64_to_int (Seconds d) = \<lfloor>real_of_int d / 1000000000\<rfloor>"
    by (simp add: float64_to_int_def Seconds_exact)
  also have "\<dots> = d div 1000000000"
    by (metis floor_divide_of_int_eq of_int_numeral)
  also have "\<dots> = d sdiv Second"
    using True by (simp add: signed_divide_int_def Second_def sgn_if)
  finally show ?thesis .
next
  case False
  then have neg: "d < 0" by simp
  then have "float64_to_int (Seconds d) = \<lceil>real_of_int d / 1000000000\<rceil>"
    by (simp add: float64_to_int_def Seconds_exact)
  also have "\<dots> = - \<lfloor>real_of_int (- d) / 1000000000\<rfloor>"
    by (simp add: ceiling_def)
  also have "\<dots> = - ((- d) div 1000000000)"
    by (metis floor_divide_of_int_eq of_int_numeral)
  also have "\<dots> = d sdiv Second"
    using neg by (simp add: signed_divide_int_def Second_def sgn_if)
  finally show ?thesis .
qed

lemma wrap64_id: "minDuration \<le> n \<Longrightarrow> n \<le> maxDuration \<Longrightarrow> wrap64 n = n"
  by (simp add: wrap64_def minDuration_def maxDuration_def)

lemma NewScreenshotManager_interval:
  assumes "0 \<le> s" and "s \<le> 7686143364"
  shows "interval (NewScreenshotManager home s) = s * 1000000000"
proof -
  have "minDuration \<le> s * Second" using assms by (simp add: minDuration_def Second_def)
  moreover have "s * Second \<le> maxDuration" using assms by (simp add: maxDuration_def Second_def)
  ultimately show ?thesis by (simp add: NewScreenshotManager_def wrap64_id Second_def)
qed

text \<open>
  For an interval that is not negative, whole seconds or not, \<^verbatim>\<open>randomInterval\<close> gives at
  most 1.2 times the interval and at least 0.8 times the interval, rounded down.
\<close>

lemma randomInterval_any_interval:
  assumes "0 \<le> interval sm" and "0 \<le> r" and "r < 1"
  shows "\<lfloor>8 / 10 * real_of_int (interval sm)\<rfloor> \<le> randomInterval sm r"
    and "real_of_int (randomInterval sm r) \<le> 12 / 10 * real_of_int (interval sm)"
proof -
  let ?m = "real_of_int (interval sm)"
  let ?x = "?m * (8 / 10) + r * (?m * (12 / 10) - ?m * (8 / 10))"
  have m0: "0 \<le> ?m" using assms(1) by simp
  have "0 \<le> r * (?m * 4 / 10)" using assms(2) m0 by simp
  then have lo: "8 / 10 * ?m \<le> ?x" by (simp add: algebra_simps)
  have "r * (?m * 4 / 10) \<le> 1 * (?m * 4 / 10)"
    using assms(3) m0 by (intro mult_right_mono) simp_all
  then have hi: "?x \<le> 12 / 10 * ?m" by (simp add: algebra_simps)
  have x0: "0 \<le> ?x" using lo m0 by simp
  have ri: "randomInterval sm r = \<lfloor>?x\<rfloor>"
    using x0 by (simp add: randomInterval_def float64_to_int_def Let_def)
  show "\<lfloor>8 / 10 * ?m\<rfloor> \<le> randomInterval sm r"
    using lo by (simp only: ri floor_mono)
  show "real_of_int (randomInterval sm r) \<le> 12 / 10 * ?m"
    using hi of_int_floor_le [of ?x] by (simp only: ri)
qed

subsection \<open>The workers\<close>

lemma capture_consistent_New: "capture_consistent (NewScreenshotManager home s)"
  by (simp add: capture_consistent_def NewScreenshotManager_def)

lemma capture_consistent_StartCapture:
  "capture_consistent sm \<Longrightarrow> capture_consistent (StartCapture sm)"
  by (auto simp: capture_consistent_def StartCapture_def split: if_splits)

lemma capture_consistent_StopCapture:
  "capture_consistent sm \<Longrightarrow> capture_consistent (StopCapture sm)"
  by (auto simp: capture_consistent_def StopCapture_def split: if_splits)




subsection \<open>Starting and stopping a session\<close>





text \<open>
  When \<^verbatim>\<open>StopTracking\<close> returns an error, it has returned before the two calls that stop
  the workers: the screenshot manager and the input monitor are as they were.
\<close>

lemma StopTracking_error_keeps_workers:
  assumes "snd (StopTracking now shot refused tr) = Some e"
  shows "ScreenshotManager (fst (StopTracking now shot refused tr)) = ScreenshotManager tr"
    and "InputMonitor (fst (StopTracking now shot refused tr)) = InputMonitor tr"
    and "\<not> IsTracking (fst (StopTracking now shot refused tr))"
  using assms
  by (auto simp: StopTracking_def StopTracking_persist_def StopTracking_workers_def
      trackActivities_def saveCurrentSession_def Let_def split: prod.splits option.splits)

lemma StopTracking_success_clears_ticks:
  assumes "snd (StopTracking now shot refused tr) = None"
  shows "ActiveTasks (fst (StopTracking now shot refused tr)) = []"
    and "\<not> IsTracking (fst (StopTracking now shot refused tr))"
  using assms
  by (auto simp: StopTracking_def StopTracking_persist_def StopTracking_workers_def
      trackActivities_def saveCurrentSession_def Let_def split: prod.splits option.splits)

text \<open>
  The definitions that the evaluation of a concrete session unfolds.
\<close>

lemmas eval_defs =
  NewActivityTracker_def NewDatabase_def NewScreenshotManager_def NewInputMonitor_def
  StartTracking_def Connect_def trackActivities_def LogActivity_def StartCapture_def
  StartMonitoring_def StartMonitoring_event_def StopMonitoring_def ClearData_def
  StopCapture_def captureScreenshot_def saveCurrentSession_def SaveActivity_def
  calculateSessionDuration_def StopTracking_def StopTracking_persist_def
  StopTracking_workers_def float64_to_int_Seconds Sub_def minDuration_def maxDuration_def
  Second_def signed_divide_int_def wrap64_def Let_def

subsection \<open>The task manager and the authentication service\<close>

lemma AddTask_found_iff: "AddTask_found ts new \<longleftrightarrow> Task_ID new \<in> Task_ID ` set ts"
  by (induction ts) auto

lemma StopActiveTask_closes_entry:
  assumes "activeTask tm = Some a"
    and "taskHistory tm (Task_ID a) = Some (h @ [e])"
    and "e ''end_time'' = Some DNil"
  shows "taskHistory (StopActiveTask now tm) (Task_ID a) = Some (h @ [e(''end_time'' \<mapsto> DTime now)])"
    and "activeTask (StopActiveTask now tm) = None"
  using assms by (simp_all add: StopActiveTask_def Let_def)

text \<open>
  \<^verbatim>\<open>UserStartTask\<close> on a manager with an active task runs \<^verbatim>\<open>StopActiveTask\<close> first.
\<close>

lemma UserStartTask_stops_prior:
  assumes "activeTask tm \<noteq> None"
  shows "UserStartTask now remote projectID t description tm =
         UserStartTask now remote projectID t description (StopActiveTask now tm)"
proof -
  have "activeTask (StopActiveTask now tm) = None"
    using assms by (auto simp: StopActiveTask_def Let_def)
  then show ?thesis using assms by (simp add: UserStartTask_def)
qed

lemma CallAPI_sent:
  "io \<noteq> RequestInvalid \<Longrightarrow>
   fst (snd (CallAPI c io endpoint method data)) =
     [\<lparr>req_url = BaseURL c @ endpoint, req_method = method, req_body = data,
       req_authorization = (if Token c \<noteq> [] then Some (''Bearer '' @ Token c) else None)\<rparr>]"
  by (cases io) (auto simp: CallAPI_def Let_def split: http_body.splits)

lemma ApiClient_Login_sent:
  "fst (snd (ApiClient_Login c io payload)) =
   fst (snd (CallAPI c io ''/api/login'' ''POST'' (Some payload)))"
  by (auto simp: ApiClient_Login_def split: prod.splits option.splits)

lemma Login_sent:
  "email \<noteq> [] \<Longrightarrow> password \<noteq> [] \<Longrightarrow>
   fst (snd (Login s io email password)) =
   fst (snd (ApiClient_Login (apiClient s) io
     [''email'' \<mapsto> JString email, ''password'' \<mapsto> JString password]))"
  by (simp add: Login_def Let_def split: prod.splits option.splits)

text \<open>
  With both credentials given, \<^verbatim>\<open>Login\<close> hands one request to the network, unless the
  request cannot be built.
\<close>

lemma Login_sends_one_request:
  assumes "email \<noteq> []" and "password \<noteq> []" and "io \<noteq> RequestInvalid"
  shows "fst (snd (Login s io email password)) =
     [\<lparr>req_url = BaseURL (apiClient s) @ ''/api/login'', req_method = ''POST'',
       req_body = Some [''email'' \<mapsto> JString email, ''password'' \<mapsto> JString password],
       req_authorization =
         (if Token (apiClient s) \<noteq> [] then Some (''Bearer '' @ Token (apiClient s)) else None)\<rparr>]"
  by (simp only: Login_sent [OF assms(1,2)] ApiClient_Login_sent CallAPI_sent [OF assms(3)])

section \<open>The claims\<close>

text \<open>
  Claim C1. The record that \<^verbatim>\<open>Stop\<close> persists should carry the counts of keyboard and
  mouse events that the input monitor accumulated during the session. The code is
  evaluated on the session of the specification's scenario: tracking of "Design Doc" starts
  on a new tracker at instant 0, the monitor's goroutine receives three key presses and one
  scroll of the wheel, tracking stops 90 seconds later. The monitor holds 3 keyboard events
  and 1 mouse event (a call of \<^verbatim>\<open>StopMonitoring\<close> at that point returns these counts), and
  \<^verbatim>\<open>StopTracking\<close> returns no error, but the one row it writes has both counts 0.
\<close>

theorem StopTracking_persists_zero_counts:
  "snd (StopMonitoring
      (StartMonitoring_event 4000000000
      \<lparr>ev_Kind = MouseWheel, ev_Keychar = 0, ev_Button = ButtonOther, ev_Amount = 3, ev_Rotation = 1\<rparr>
      (StartMonitoring_event 3000000000
      \<lparr>ev_Kind = KeyDown, ev_Keychar = 99, ev_Button = ButtonOther, ev_Amount = 0, ev_Rotation = 0\<rparr>
      (StartMonitoring_event 2000000000
      \<lparr>ev_Kind = KeyDown, ev_Keychar = 98, ev_Button = ButtonOther, ev_Amount = 0, ev_Rotation = 0\<rparr>
      (StartMonitoring_event 1000000000
      \<lparr>ev_Kind = KeyDown, ev_Keychar = 97, ev_Button = ButtonOther, ev_Amount = 0, ev_Rotation = 0\<rparr>
      (InputMonitor (fst (StartTracking ConnectOK 0 0 ''Design Doc''
      (NewActivityTracker ''/home/u'' [] ''shots'')))))))))
     = [''keyboard_event_count'' \<mapsto> 3, ''mouse_event_count'' \<mapsto> 1]
   \<and> snd (StopTracking 90000000000 (Written ''20240101_000130'') None
      ((fst (StartTracking ConnectOK 0 0 ''Design Doc''
      (NewActivityTracker ''/home/u'' [] ''shots'')))
      \<lparr>InputMonitor := (StartMonitoring_event 4000000000
      \<lparr>ev_Kind = MouseWheel, ev_Keychar = 0, ev_Button = ButtonOther, ev_Amount = 3, ev_Rotation = 1\<rparr>
      (StartMonitoring_event 3000000000
      \<lparr>ev_Kind = KeyDown, ev_Keychar = 99, ev_Button = ButtonOther, ev_Amount = 0, ev_Rotation = 0\<rparr>
      (StartMonitoring_event 2000000000
      \<lparr>ev_Kind = KeyDown, ev_Keychar = 98, ev_Button = ButtonOther, ev_Amount = 0, ev_Rotation = 0\<rparr>
      (StartMonitoring_event 1000000000
      \<lparr>ev_Kind = KeyDown, ev_Keychar = 97, ev_Button = ButtonOther, ev_Amount = 0, ev_Rotation = 0\<rparr>
      (InputMonitor (fst (StartTracking ConnectOK 0 0 ''Design Doc''
      (NewActivityTracker ''/home/u'' [] ''shots''))))))))\<rparr>)) = None
   \<and> activities (Database (fst (StopTracking 90000000000 (Written ''20240101_000130'') None
      ((fst (StartTracking ConnectOK 0 0 ''Design Doc''
      (NewActivityTracker ''/home/u'' [] ''shots'')))
      \<lparr>InputMonitor := (StartMonitoring_event 4000000000
      \<lparr>ev_Kind = MouseWheel, ev_Keychar = 0, ev_Button = ButtonOther, ev_Amount = 3, ev_Rotation = 1\<rparr>
      (StartMonitoring_event 3000000000
      \<lparr>ev_Kind = KeyDown, ev_Keychar = 99, ev_Button = ButtonOther, ev_Amount = 0, ev_Rotation = 0\<rparr>
      (StartMonitoring_event 2000000000
      \<lparr>ev_Kind = KeyDown, ev_Keychar = 98, ev_Button = ButtonOther, ev_Amount = 0, ev_Rotation = 0\<rparr>
      (StartMonitoring_event 1000000000
      \<lparr>ev_Kind = KeyDown, ev_Keychar = 97, ev_Button = ButtonOther, ev_Amount = 0, ev_Rotation = 0\<rparr>
      (InputMonitor (fst (StartTracking ConnectOK 0 0 ''Design Doc''
      (NewActivityTracker ''/home/u'' [] ''shots''))))))))\<rparr>))))
     = [\<lparr>task = ''Design Doc'', start_time = Some 0, end_time = Some 90000000000,
         duration = 90,
         screenshot_path = ''/home/u/.time-tracker/screenshots/screenshot_20240101_000130.png'',
         keyboard_event_count = 0, mouse_event_count = 0\<rparr>]"
  by (simp add: eval_defs)

text \<open>
  Claim C2, as the code has it. No error is returned when \<^verbatim>\<open>StopTracking\<close> is called
  while no session is active. When, in addition, no tick is waiting in the log (as on a new
  tracker and after every \<^verbatim>\<open>StopTracking\<close> that returned no error), the call returns nil
  and leaves the database as it was: nothing is written.
\<close>

theorem StopTracking_idle:
  assumes "\<not> IsTracking tr" and "ActiveTasks tr = []"
  shows "snd (StopTracking now shot refused tr) = None
     \<and> Database (fst (StopTracking now shot refused tr)) = Database tr"
  using assms
  by (simp add: StopTracking_def StopTracking_persist_def StopTracking_workers_def
      trackActivities_def saveCurrentSession_def Let_def)

text \<open>
  The theorem on a new tracker.
\<close>

theorem StopTracking_idle_witness:
  "\<not> IsTracking (NewActivityTracker ''/home/u'' [] ''shots'')
   \<and> ActiveTasks (NewActivityTracker ''/home/u'' [] ''shots'') = []
   \<and> snd (StopTracking 5000000000 CaptureFails None (NewActivityTracker ''/home/u'' [] ''shots'')) = None
   \<and> Database (fst (StopTracking 5000000000 CaptureFails None (NewActivityTracker ''/home/u'' [] ''shots'')))
     = Database (NewActivityTracker ''/home/u'' [] ''shots'')"
  using StopTracking_idle [of "(NewActivityTracker ''/home/u'' [] ''shots'')" 5000000000 CaptureFails None]
  by (simp add: NewActivityTracker_def)

text \<open>
  The claim as stated fails. On a new tracker, where no session is active,
  \<^verbatim>\<open>StopTracking\<close> returns nil, not an error. And after a \<^verbatim>\<open>StopTracking\<close> whose
  insertion the storage refused, no session is active and the table is empty, yet the
  next \<^verbatim>\<open>StopTracking\<close> writes the tick that was left in the log.
\<close>

theorem StopTracking_idle_counterexample:
  "\<not> IsTracking (NewActivityTracker ''/home/u'' [] ''shots'')
   \<and> snd (StopTracking 5000000000 CaptureFails None (NewActivityTracker ''/home/u'' [] ''shots'')) = None
   \<and> \<not> IsTracking
      (fst (StopTracking 90000000000 (Written ''20240101_000130'') (Some 0)
      (fst (StartTracking ConnectOK 0 0 ''Design Doc''
      (NewActivityTracker ''/home/u'' [] ''shots'')))))
   \<and> activities (Database
      (fst (StopTracking 90000000000 (Written ''20240101_000130'') (Some 0)
      (fst (StartTracking ConnectOK 0 0 ''Design Doc''
      (NewActivityTracker ''/home/u'' [] ''shots'')))))) = []
   \<and> activities (Database (fst (StopTracking 95000000000 CaptureFails None
      (fst (StopTracking 90000000000 (Written ''20240101_000130'') (Some 0)
      (fst (StartTracking ConnectOK 0 0 ''Design Doc''
      (NewActivityTracker ''/home/u'' [] ''shots''))))))))
     = [\<lparr>task = ''Design Doc'', start_time = Some 0, end_time = Some 95000000000,
         duration = 95,
         screenshot_path = [],
         keyboard_event_count = 0, mouse_event_count = 0\<rparr>]"
  by (simp add: eval_defs)




text \<open>
  Claim C4. When the storage refuses the insertion, \<^verbatim>\<open>StopTracking\<close> should return the
  error with both workers shut down. The code is evaluated on a session started on a new
  tracker whose insertion is refused: the error is returned and no tracking is flagged,
  but the screenshot manager is still active with its goroutine, the input monitor still
  monitors, and a key press received after the return is recorded.
\<close>

theorem StopTracking_save_error_leaves_workers:
  "snd (StopTracking 90000000000 (Written ''20240101_000130'') (Some 0)
      (fst (StartTracking ConnectOK 0 0 ''Design Doc''
      (NewActivityTracker ''/home/u'' [] ''shots'')))) = Some SaveError
   \<and> \<not> IsTracking
      (fst (StopTracking 90000000000 (Written ''20240101_000130'') (Some 0)
      (fst (StartTracking ConnectOK 0 0 ''Design Doc''
      (NewActivityTracker ''/home/u'' [] ''shots'')))))
   \<and> isActive (ScreenshotManager
      (fst (StopTracking 90000000000 (Written ''20240101_000130'') (Some 0)
      (fst (StartTracking ConnectOK 0 0 ''Design Doc''
      (NewActivityTracker ''/home/u'' [] ''shots''))))))
   \<and> wg (ScreenshotManager
      (fst (StopTracking 90000000000 (Written ''20240101_000130'') (Some 0)
      (fst (StartTracking ConnectOK 0 0 ''Design Doc''
      (NewActivityTracker ''/home/u'' [] ''shots'')))))) = 1
   \<and> IsMonitoring (InputMonitor
      (fst (StopTracking 90000000000 (Written ''20240101_000130'') (Some 0)
      (fst (StartTracking ConnectOK 0 0 ''Design Doc''
      (NewActivityTracker ''/home/u'' [] ''shots''))))))
   \<and> Keystrokes (StartMonitoring_event 90000000001
      \<lparr>ev_Kind = KeyDown, ev_Keychar = 97, ev_Button = ButtonOther, ev_Amount = 0, ev_Rotation = 0\<rparr>
      (InputMonitor
      (fst (StopTracking 90000000000 (Written ''20240101_000130'') (Some 0)
      (fst (StartTracking ConnectOK 0 0 ''Design Doc''
      (NewActivityTracker ''/home/u'' [] ''shots'')))))))
     = [\<lparr>EventType = ''press'', Key = Some 97, Position = (0, 0), Button = [],
         Pressed = False, Scroll = (0, 0), Timestamp = 90000000001\<rparr>]"
  by (simp add: eval_defs)

text \<open>
  Claim C5. For a screenshot manager configured with a mean interval of \<open>s\<close> seconds
  (\<open>s\<close> not negative and small enough that 1.2 times the interval fits \<^verbatim>\<open>int64\<close>), and for
  every draw \<open>r\<close> of \<^verbatim>\<open>rand.Float64()\<close>, the result of \<^verbatim>\<open>randomInterval\<close> lies between
  0.8 times and 1.2 times the interval.
\<close>

theorem randomInterval_in_band:
  assumes "0 \<le> s" and "s \<le> 7686143364" and "0 \<le> r" and "r < 1"
  shows "8 / 10 * real_of_int (interval (NewScreenshotManager home s))
           \<le> real_of_int (randomInterval (NewScreenshotManager home s) r)
       \<and> real_of_int (randomInterval (NewScreenshotManager home s) r)
           \<le> 12 / 10 * real_of_int (interval (NewScreenshotManager home s))"
proof -
  let ?m = "real_of_int s * 1000000000"
  let ?x = "?m * (8 / 10) + r * (?m * (12 / 10) - ?m * (8 / 10))"
  have m: "interval (NewScreenshotManager home s) = s * 1000000000"
    using assms(1,2) by (rule NewScreenshotManager_interval)
  have s0: "0 \<le> real_of_int s" using assms by simp
  have lo: "real_of_int (s * 800000000) \<le> ?x"
  proof -
    have "0 \<le> r * (real_of_int s * 400000000)" using assms s0 by simp
    then show ?thesis by (simp add: algebra_simps)
  qed
  have hi: "?x \<le> real_of_int (s * 1200000000)"
  proof -
    have "r * (real_of_int s * 400000000) \<le> 1 * (real_of_int s * 400000000)"
      using assms s0 by (intro mult_right_mono) simp_all
    then show ?thesis by (simp add: algebra_simps)
  qed
  have "0 \<le> real_of_int (s * 800000000)" using assms(1) by simp
  then have x0: "0 \<le> ?x" using lo by linarith
  have ri: "randomInterval (NewScreenshotManager home s) r = \<lfloor>?x\<rfloor>"
    using x0 by (simp add: randomInterval_def m float64_to_int_def Let_def)
  have "s * 800000000 \<le> \<lfloor>?x\<rfloor>" using lo by (simp only: le_floor_iff)
  then have a: "real_of_int (s * 800000000) \<le> real_of_int \<lfloor>?x\<rfloor>" by (simp only: of_int_le_iff)
  have b: "real_of_int \<lfloor>?x\<rfloor> \<le> real_of_int (s * 1200000000)"
    using hi of_int_floor_le [of ?x] by linarith
  show ?thesis using a b by (simp add: ri m)
qed

text \<open>
  The theorem for the interval of 10 seconds that the tracker configures, and the draw 1/2.
\<close>

theorem randomInterval_in_band_witness:
  "(0::int) \<le> 10 \<and> (10::int) \<le> 7686143364 \<and> (0::real) \<le> 1 / 2 \<and> (1::real) / 2 < 1
   \<and> 8 / 10 * real_of_int (interval (NewScreenshotManager ''/home/u'' 10))
       \<le> real_of_int (randomInterval (NewScreenshotManager ''/home/u'' 10) (1 / 2))
   \<and> real_of_int (randomInterval (NewScreenshotManager ''/home/u'' 10) (1 / 2))
       \<le> 12 / 10 * real_of_int (interval (NewScreenshotManager ''/home/u'' 10))"
  using randomInterval_in_band [of 10 "1 / 2" "''/home/u''"] by simp

text \<open>
  Claim C6. \<^verbatim>\<open>StopCapture\<close> and \<^verbatim>\<open>StopMonitoring\<close> are idempotent. In every state, a
  second \<^verbatim>\<open>StopCapture\<close> leaves the manager as the first left it, and it finds the guard
  "not active or no channel" true, so it returns at once. A second \<^verbatim>\<open>StopMonitoring\<close>
  leaves the monitor as the first left it and returns zero counts; on a monitor that is
  not monitoring, \<^verbatim>\<open>StopMonitoring\<close> changes nothing and returns zero counts.
\<close>

theorem Stop_idempotent:
  "StopCapture (StopCapture sm) = StopCapture sm
   \<and> (\<not> isActive (StopCapture sm) \<or> stopChan (StopCapture sm) = None)
   \<and> fst (StopMonitoring (fst (StopMonitoring im))) = fst (StopMonitoring im)
   \<and> snd (StopMonitoring (fst (StopMonitoring im))) =
        [''keyboard_event_count'' \<mapsto> 0, ''mouse_event_count'' \<mapsto> 0]
   \<and> (\<not> IsMonitoring im \<longrightarrow>
        StopMonitoring im = (im, [''keyboard_event_count'' \<mapsto> 0, ''mouse_event_count'' \<mapsto> 0]))"
  by (simp add: StopCapture_def StopMonitoring_def ClearData_def Let_def)

text \<open>
  The theorem on an active screenshot manager and on a new input monitor.
\<close>

theorem Stop_idempotent_witness:
  "StopCapture (StopCapture
      \<lparr>interval = 10000000000, isActive = True, screenshotDir = ''/home/u/.time-tracker/screenshots'',
      stopChan = Some False, wg = 1\<rparr>)
     = StopCapture
      \<lparr>interval = 10000000000, isActive = True, screenshotDir = ''/home/u/.time-tracker/screenshots'',
      stopChan = Some False, wg = 1\<rparr>
   \<and> \<not> isActive (StopCapture
      \<lparr>interval = 10000000000, isActive = True, screenshotDir = ''/home/u/.time-tracker/screenshots'',
      stopChan = Some False, wg = 1\<rparr>)
   \<and> \<not> IsMonitoring NewInputMonitor
   \<and> StopMonitoring NewInputMonitor
     = (NewInputMonitor, [''keyboard_event_count'' \<mapsto> 0, ''mouse_event_count'' \<mapsto> 0])"
  using Stop_idempotent [of "\<lparr>interval = 10000000000, isActive = True, screenshotDir = ''/home/u/.time-tracker/screenshots'',
      stopChan = Some False, wg = 1\<rparr>" NewInputMonitor]
  by (simp add: NewInputMonitor_def StopCapture_def)





text \<open>
  Claim C9. When the email or the password is empty, \<^verbatim>\<open>Login\<close> returns neither a user
  nor an error, leaves the service as it is, and hands no request to the network.
\<close>

theorem Login_empty_credentials:
  "email = [] \<or> password = [] \<Longrightarrow> Login s io email password = (s, [], (None, None))"
  by (simp add: Login_def)

text \<open>
  The theorem for an empty email.
\<close>

theorem Login_empty_credentials_witness:
  "Login \<lparr>apiClient = \<lparr>BaseURL = ''https://tracker.example'', Token = []\<rparr>\<rparr> TransportFails [] ''secret''
     = (\<lparr>apiClient = \<lparr>BaseURL = ''https://tracker.example'', Token = []\<rparr>\<rparr>, [], (None, None))"
  using Login_empty_credentials [of "[]" "''secret''" "\<lparr>apiClient = \<lparr>BaseURL = ''https://tracker.example'', Token = []\<rparr>\<rparr>" TransportFails]
  by simp

text \<open>
  Claim C10. \<^verbatim>\<open>AddTask\<close> keeps the task IDs of the list pairwise distinct: on a list
  with distinct IDs, a task whose ID is already present is refused with \<open>(false, nil)\<close> and
  the manager is left as it was; any other task is appended at the end and the call
  returns \<open>(true, nil)\<close>.
\<close>

theorem AddTask_distinct_ids:
  assumes "distinct (map Task_ID (tasks tm))"
  shows "distinct (map Task_ID (tasks (fst (AddTask tm new))))
     \<and> (if Task_ID new \<in> Task_ID ` set (tasks tm)
        then AddTask tm new = (tm, (False, None))
        else tasks (fst (AddTask tm new)) = tasks tm @ [new]
           \<and> snd (AddTask tm new) = (True, None))"
  using assms by (simp add: AddTask_def AddTask_found_iff)

text \<open>
  The theorem on a manager that holds the task 1, for a new task 2.
\<close>

theorem AddTask_distinct_ids_witness:
  "distinct (map Task_ID (tasks (NewTaskManager\<lparr>tasks :=
       [\<lparr>Task_ID = 1, Task_Name = ''Design Doc'',
         Task_Project = \<lparr>Project_ID = 7, Project_Name = ''Docs'', Project_Description = None,
           Project_CreatedBy = None, Project_CreatedAt = None, Project_UpdatedAt = None,
           Project_Members = [], Project_FavoriteBy = [], Project_Status = None\<rparr>,
         Task_Description = None, Task_Status = None\<rparr>]\<rparr>)))
   \<and> map Task_ID (tasks (fst (AddTask (NewTaskManager\<lparr>tasks :=
       [\<lparr>Task_ID = 1, Task_Name = ''Design Doc'',
         Task_Project = \<lparr>Project_ID = 7, Project_Name = ''Docs'', Project_Description = None,
           Project_CreatedBy = None, Project_CreatedAt = None, Project_UpdatedAt = None,
           Project_Members = [], Project_FavoriteBy = [], Project_Status = None\<rparr>,
         Task_Description = None, Task_Status = None\<rparr>]\<rparr>)
       \<lparr>Task_ID = 2, Task_Name = ''Review'',
         Task_Project = \<lparr>Project_ID = 7, Project_Name = ''Docs'', Project_Description = None,
           Project_CreatedBy = None, Project_CreatedAt = None, Project_UpdatedAt = None,
           Project_Members = [], Project_FavoriteBy = [], Project_Status = None\<rparr>,
         Task_Description = None, Task_Status = None\<rparr>))) = [1, 2]
   \<and> snd (AddTask (NewTaskManager\<lparr>tasks :=
       [\<lparr>Task_ID = 1, Task_Name = ''Design Doc'',
         Task_Project = \<lparr>Project_ID = 7, Project_Name = ''Docs'', Project_Description = None,
           Project_CreatedBy = None, Project_CreatedAt = None, Project_UpdatedAt = None,
           Project_Members = [], Project_FavoriteBy = [], Project_Status = None\<rparr>,
         Task_Description = None, Task_Status = None\<rparr>]\<rparr>)
       \<lparr>Task_ID = 2, Task_Name = ''Review'',
         Task_Project = \<lparr>Project_ID = 7, Project_Name = ''Docs'', Project_Description = None,
           Project_CreatedBy = None, Project_CreatedAt = None, Project_UpdatedAt = None,
           Project_Members = [], Project_FavoriteBy = [], Project_Status = None\<rparr>,
         Task_Description = None, Task_Status = None\<rparr>) = (True, None)"
  using AddTask_distinct_ids [of "NewTaskManager\<lparr>tasks :=
       [\<lparr>Task_ID = 1, Task_Name = ''Design Doc'',
         Task_Project = \<lparr>Project_ID = 7, Project_Name = ''Docs'', Project_Description = None,
           Project_CreatedBy = None, Project_CreatedAt = None, Project_UpdatedAt = None,
           Project_Members = [], Project_FavoriteBy = [], Project_Status = None\<rparr>,
         Task_Description = None, Task_Status = None\<rparr>]\<rparr>"
       "\<lparr>Task_ID = 2, Task_Name = ''Review'',
         Task_Project = \<lparr>Project_ID = 7, Project_Name = ''Docs'', Project_Description = None,
           Project_CreatedBy = None, Project_CreatedAt = None, Project_UpdatedAt = None,
           Project_Members = [], Project_FavoriteBy = [], Project_Status = None\<rparr>,
         Task_Description = None, Task_Status = None\<rparr>"]
  by (simp add: NewTaskManager_def)

end
